theory Spec2Isabelle
  imports Complex_Main "HOL-Library.Sublist"
begin

section \<open>Python values and primitives used by the routing service\<close>

text \<open>
  Floats are modelled as reals, so the arithmetic below is exact. Where the rounding of
  the double-precision evaluation decides what the code does, it is modelled on top of
  that: the sign of a rounded zero in the cache key (\<open>py_round_signed\<close>) and the error
  of the haversine argument at the domain boundary of the square root
  (\<open>haversine_distance_rounded\<close>).
  Exceptions are values of type \<open>exn\<close>; a computation that may raise returns
  \<open>exn + 'a\<close> with \<open>Inl\<close> for the raised exception.
\<close>

datatype exn =
    NetworkXNoPath string
  | KeyError string
  | ValueError string
  | ValidationError string
  | Exception string

text \<open>\<open>str(e)\<close>: the message; a \<open>KeyError\<close> prints its key quoted.\<close>

fun str_exn :: "exn \<Rightarrow> string" where
  "str_exn (NetworkXNoPath m) = m"
| "str_exn (KeyError k) = [CHR 0x27] @ k @ [CHR 0x27]"
| "str_exn (ValueError m) = m"
| "str_exn (ValidationError m) = m"
| "str_exn (Exception m) = m"

text \<open>\<open>round(x, n)\<close>: to \<open>n\<close> decimals, ties to the even neighbour.\<close>

definition py_round :: "real \<Rightarrow> nat \<Rightarrow> real" where
  "py_round x n =
     (let y = x * 10 ^ n; f = \<lfloor>y\<rfloor>; d = y - of_int f
      in of_int (if d < 1 / 2 then f
                 else if 1 / 2 < d then f + 1
                 else if even f then f else f + 1) / 10 ^ n)"

text \<open>
  \<open>round(x, n)\<close> keeps the sign of \<open>x\<close>, also when the result is zero:
  \<open>round(-0.001, 2)\<close> is the negative zero, which equals \<open>0.0\<close> and prints as
  \<open>-0.0\<close>. A float that is going to be printed is its sign bit and its magnitude.
\<close>

definition py_round_signed :: "real \<Rightarrow> nat \<Rightarrow> bool \<times> real" where
  "py_round_signed x n = (x < 0, \<bar>py_round x n\<bar>)"

text \<open>\<open>int(x)\<close> on a float: truncation towards zero.\<close>

definition py_int :: "real \<Rightarrow> int" where
  "py_int x = (if 0 \<le> x then \<lfloor>x\<rfloor> else \<lceil>x\<rceil>)"

text \<open>\<open>str(n)\<close> for an integer: its decimal digits.\<close>

fun digits :: "nat \<Rightarrow> string" where
  "digits n =
     (if n < 10 then [char_of (48 + n)]
      else digits (n div 10) @ [char_of (48 + n mod 10)])"

definition str_int :: "int \<Rightarrow> string" where
  "str_int i = (if i < 0 then CHR ''-'' # digits (nat (- i)) else digits (nat i))"

text \<open>The functions of \<open>math\<close> that the service imports.\<close>

definition radians :: "real \<Rightarrow> real" where
  "radians x = x * (pi / 180)"

definition py_sqrt :: "real \<Rightarrow> exn + real" where
  "py_sqrt x = (if x < 0 then Inl (ValueError ''math domain error'') else Inr (sqrt x))"

definition atan2 :: "real \<Rightarrow> real \<Rightarrow> real" where
  "atan2 y x =
     (if 0 < x then arctan (y / x)
      else if x < 0 then (if 0 \<le> y then arctan (y / x) + pi else arctan (y / x) - pi)
      else if 0 < y then pi / 2
      else if y < 0 then - (pi / 2)
      else 0)"

section \<open>Pydantic models\<close>

record Coordinates =
  lat :: real
  lng :: real

record RouteRequest =
  origin :: Coordinates
  destination :: Coordinates
  mode :: string


record RouteResponse =
  distance_km :: real
  duration_minutes :: real
  mode_res :: string
  path_coordinates :: "real list list option"
  success :: bool
  error :: "string option"


text \<open>
  The constraints the models declare: \<open>Field(..., ge=-90, le=90)\<close>,
  \<open>Field(..., ge=-180, le=180)\<close> and \<open>Literal["drive", "walk", "bike"]\<close>.
  A request body that violates one is rejected before the endpoint runs.
\<close>

definition valid_Coordinates :: "Coordinates \<Rightarrow> bool" where
  "valid_Coordinates c \<longleftrightarrow> - 90 \<le> lat c \<and> lat c \<le> 90 \<and> - 180 \<le> lng c \<and> lng c \<le> 180"

definition valid_mode :: "string \<Rightarrow> bool" where
  "valid_mode m \<longleftrightarrow> m = ''drive'' \<or> m = ''walk'' \<or> m = ''bike''"

definition validate_RouteRequest :: "RouteRequest \<Rightarrow> exn + RouteRequest" where
  "validate_RouteRequest r =
     (if \<not> valid_Coordinates (origin r) then Inl (ValidationError ''origin'')
      else if \<not> valid_Coordinates (destination r) then Inl (ValidationError ''destination'')
      else if \<not> valid_mode (mode r) then Inl (ValidationError ''mode'')
      else Inr r)"

section \<open>Helper functions\<close>

definition get_network_type :: "string \<Rightarrow> string" where
  "get_network_type m =
     (case map_of [(''drive'', ''drive''), (''walk'', ''walk''), (''bike'', ''bike'')] m of
        Some t \<Rightarrow> t | None \<Rightarrow> ''drive'')"

definition get_speed_kmh :: "string \<Rightarrow> real" where
  "get_speed_kmh m =
     (case map_of [(''drive'', 40), (''walk'', 5), (''bike'', 15)] m of
        Some v \<Rightarrow> v | None \<Rightarrow> 40)"

section \<open>External collaborators\<close>

text \<open>
  OSMnx, NetworkX and the digits an f-string prints for a float that is not negative
  (\<open>float_str\<close>) are not part of the service.
  They are parameters of the model: each field is one call the service makes, returning
  either the raised exception or the value. \<open>route_to_gdf_sum G route a\<close> stands for
  \<open>ox.routing.route_to_gdf(G, route)[a].sum()\<close> and \<open>node_attr G n a\<close> for
  \<open>G.nodes[n][a]\<close>.
\<close>

type_synonym node = int

record 'g osmnx =
  graph_from_point :: "real \<times> real \<Rightarrow> int \<Rightarrow> string \<Rightarrow> exn + 'g"
  add_edge_speeds :: "'g \<Rightarrow> exn + 'g"
  add_edge_travel_times :: "'g \<Rightarrow> exn + 'g"
  nearest_nodes :: "'g \<Rightarrow> real \<Rightarrow> real \<Rightarrow> exn + node"
  shortest_path :: "'g \<Rightarrow> node \<Rightarrow> node \<Rightarrow> string \<Rightarrow> exn + node list option"
  route_to_gdf_sum :: "'g \<Rightarrow> node list \<Rightarrow> string \<Rightarrow> exn + real"
  node_attr :: "'g \<Rightarrow> node \<Rightarrow> string \<Rightarrow> exn + real"
  float_str :: "real \<Rightarrow> string"

text \<open>An f-string prints a float with set sign bit as a minus sign and the magnitude.\<close>

definition format_float :: "'g osmnx \<Rightarrow> bool \<times> real \<Rightarrow> string" where
  "format_float env f = (if fst f then ''-'' else []) @ float_str env (snd f)"

section \<open>The two cache tiers\<close>

text \<open>
  \<open>graph_cache\<close> is the in-memory tier and \<open>disk_cache\<close> the persistent one, both
  dictionaries from cache key to graph, threaded through the calls as explicit state;
  calls run one after the other. Membership test, lookup and assignment are the total
  operations of a map. Expiry and eviction of the in-memory tier only remove entries;
  where a theorem depends on what the tier still holds, it is stated for every tier that
  has lost entries.
\<close>

record 'g caches =
  graph_cache :: "string \<rightharpoonup> 'g"
  disk_cache :: "string \<rightharpoonup> 'g"

definition get_graph_key :: "'g osmnx \<Rightarrow> real \<Rightarrow> real \<Rightarrow> string \<Rightarrow> int \<Rightarrow> string" where
  "get_graph_key env la lo m dist_m =
     (let lat_rounded = py_round_signed la 2;
          lng_rounded = py_round_signed lo 2
      in format_float env lat_rounded @ ''_'' @ format_float env lng_rounded @ ''_'' @ m
           @ ''_'' @ str_int dist_m)"

definition get_or_download_graph ::
  "'g osmnx \<Rightarrow> 'g caches \<Rightarrow> real \<Rightarrow> real \<Rightarrow> string \<Rightarrow> int \<Rightarrow> (exn + 'g) \<times> 'g caches" where
  "get_or_download_graph env s la lo m dist_m =
     (let cache_key = get_graph_key env la lo m dist_m
      in case graph_cache s cache_key of
           Some G \<Rightarrow> (Inr G, s)
         | None \<Rightarrow>
            (case disk_cache s cache_key of
               Some G \<Rightarrow> (Inr G, s\<lparr>graph_cache := (graph_cache s)(cache_key \<mapsto> G)\<rparr>)
             | None \<Rightarrow>
                (let network_type = get_network_type m
                 in case graph_from_point env (la, lo) dist_m network_type of
                      Inl e \<Rightarrow> (Inl e, s)
                    | Inr G0 \<Rightarrow>
                       (case add_edge_speeds env G0 of
                          Inl e \<Rightarrow> (Inl e, s)
                        | Inr G1 \<Rightarrow>
                           (case add_edge_travel_times env G1 of
                              Inl e \<Rightarrow> (Inl e, s)
                            | Inr G \<Rightarrow>
                               (Inr G, s\<lparr>graph_cache := (graph_cache s)(cache_key \<mapsto> G),
                                         disk_cache := (disk_cache s)(cache_key \<mapsto> G)\<rparr>))))))"

section \<open>Route calculation\<close>

fun route_coords :: "'g osmnx \<Rightarrow> 'g \<Rightarrow> node list \<Rightarrow> exn + real list list" where
  "route_coords env G [] = Inr []"
| "route_coords env G (n # ns) =
     (case node_attr env G n ''x'' of
        Inl e \<Rightarrow> Inl e
      | Inr x \<Rightarrow>
         (case node_attr env G n ''y'' of
            Inl e \<Rightarrow> Inl e
          | Inr y \<Rightarrow>
             (case route_coords env G ns of
                Inl e \<Rightarrow> Inl e
              | Inr cs \<Rightarrow> Inr ([x, y] # cs))))"

text \<open>The body of the outer \<open>try\<close> of \<open>calculate_route\<close>.\<close>

definition calculate_route_body ::
  "'g osmnx \<Rightarrow> 'g \<Rightarrow> Coordinates \<Rightarrow> Coordinates \<Rightarrow> string \<Rightarrow> exn + RouteResponse" where
  "calculate_route_body env G orig dest m =
     (case nearest_nodes env G (lng orig) (lat orig) of
        Inl e \<Rightarrow> Inl e
      | Inr orig_node \<Rightarrow>
     (case nearest_nodes env G (lng dest) (lat dest) of
        Inl e \<Rightarrow> Inl e
      | Inr dest_node \<Rightarrow>
     (case (case shortest_path env G orig_node dest_node ''travel_time'' of
              Inl (NetworkXNoPath _) \<Rightarrow> shortest_path env G orig_node dest_node ''length''
            | Inl e \<Rightarrow> Inl e
            | Inr r \<Rightarrow> Inr r) of
        Inl e \<Rightarrow> Inl e
      | Inr None \<Rightarrow>
          Inr \<lparr>distance_km = 0, duration_minutes = 0, mode_res = m,
               path_coordinates = None, success = False,
               error = Some ''No path found between points''\<rparr>
      | Inr (Some route) \<Rightarrow>
     (case route_to_gdf_sum env G route ''length'' of
        Inl e \<Rightarrow> Inl e
      | Inr edge_lengths \<Rightarrow>
     (let dist_km = edge_lengths / 1000
      in case (case route_to_gdf_sum env G route ''travel_time'' of
                 Inl (KeyError _) \<Rightarrow> Inr ((dist_km / get_speed_kmh m) * 60)
               | Inl e \<Rightarrow> Inl e
               | Inr edge_times \<Rightarrow> Inr (edge_times / 60)) of
           Inl e \<Rightarrow> Inl e
         | Inr dur_minutes \<Rightarrow>
     (case route_coords env G route of
        Inl e \<Rightarrow> Inl e
      | Inr coords \<Rightarrow>
          Inr \<lparr>distance_km = py_round dist_km 2,
               duration_minutes = py_round dur_minutes 1,
               mode_res = m, path_coordinates = Some coords,
               success = True, error = None\<rparr>))))))"

definition calculate_route ::
  "'g osmnx \<Rightarrow> 'g \<Rightarrow> Coordinates \<Rightarrow> Coordinates \<Rightarrow> string \<Rightarrow> RouteResponse" where
  "calculate_route env G orig dest m =
     (case calculate_route_body env G orig dest m of
        Inr r \<Rightarrow> r
      | Inl e \<Rightarrow>
          \<lparr>distance_km = 0, duration_minutes = 0, mode_res = m,
           path_coordinates = None, success = False, error = Some (str_exn e)\<rparr>)"

section \<open>Haversine fallback\<close>

definition haversine_distance :: "Coordinates \<Rightarrow> Coordinates \<Rightarrow> exn + real" where
  "haversine_distance orig dest =
     (let R = 6371;
          lat1 = radians (lat orig); lng1 = radians (lng orig);
          lat2 = radians (lat dest); lng2 = radians (lng dest);
          dlat = lat2 - lat1;
          dlng = lng2 - lng1;
          a = (sin (dlat / 2))\<^sup>2 + cos lat1 * cos lat2 * (sin (dlng / 2))\<^sup>2
      in case py_sqrt a of
           Inl e \<Rightarrow> Inl e
         | Inr sa \<Rightarrow>
            (case py_sqrt (1 - a) of
               Inl e \<Rightarrow> Inl e
             | Inr sb \<Rightarrow> Inr (R * (2 * atan2 sa sb))))"

text \<open>
  The same function as the doubles compute it, as far as raising goes. The computed
  \<open>a\<close> is the exact value plus the rounding error \<open>err orig dest\<close> of its
  evaluation; \<open>sqrt(a)\<close> raises when the computed \<open>a\<close> is negative and
  \<open>sqrt(1 - a)\<close> when it exceeds 1 (the subtraction from 1 keeps the sign).
\<close>

definition haversine_distance_rounded ::
  "(Coordinates \<Rightarrow> Coordinates \<Rightarrow> real) \<Rightarrow> Coordinates \<Rightarrow> Coordinates \<Rightarrow> exn + real" where
  "haversine_distance_rounded err orig dest =
     (let R = 6371;
          lat1 = radians (lat orig); lng1 = radians (lng orig);
          lat2 = radians (lat dest); lng2 = radians (lng dest);
          dlat = lat2 - lat1;
          dlng = lng2 - lng1;
          a = (sin (dlat / 2))\<^sup>2 + cos lat1 * cos lat2 * (sin (dlng / 2))\<^sup>2 + err orig dest
      in case py_sqrt a of
           Inl e \<Rightarrow> Inl e
         | Inr sa \<Rightarrow>
            (case py_sqrt (1 - a) of
               Inl e \<Rightarrow> Inl e
             | Inr sb \<Rightarrow> Inr (R * (2 * atan2 sa sb))))"

section \<open>The endpoints\<close>

text \<open>
  The radius the single-route endpoint asks for (its lines
  \<open>graph_radius = max(int(direct_distance * 1500), 5000)\<close> and
  \<open>graph_radius = min(graph_radius, 50000)\<close>).
\<close>

definition graph_radius_of :: "real \<Rightarrow> int" where
  "graph_radius_of direct_distance = min (max (py_int (direct_distance * 1500)) 5000) 50000"

text \<open>
  The fallback response the endpoint builds in two places, with the annotation as the
  only difference.
\<close>

definition fallback_response :: "real \<Rightarrow> string \<Rightarrow> string \<Rightarrow> RouteResponse" where
  "fallback_response direct_km m msg =
     (let road_km = direct_km * 1.4;
          speed = get_speed_kmh m
      in \<lparr>distance_km = py_round road_km 2,
          duration_minutes = py_round ((road_km / speed) * 60) 1,
          mode_res = m, path_coordinates = None, success = True, error = Some msg\<rparr>)"

text \<open>The body of the \<open>try\<close> of \<open>calculate_single_route\<close>.\<close>

definition single_route_try ::
  "'g osmnx \<Rightarrow> 'g caches \<Rightarrow> RouteRequest \<Rightarrow> (exn + RouteResponse) \<times> 'g caches" where
  "single_route_try env s request =
     (let mid_lat = (lat (origin request) + lat (destination request)) / 2;
          mid_lng = (lng (origin request) + lng (destination request)) / 2
      in case haversine_distance (origin request) (destination request) of
           Inl e \<Rightarrow> (Inl e, s)
         | Inr direct_distance \<Rightarrow>
            (let graph_radius = graph_radius_of direct_distance
             in case get_or_download_graph env s mid_lat mid_lng (mode request) graph_radius of
                  (Inl e, s') \<Rightarrow> (Inl e, s')
                | (Inr G, s') \<Rightarrow>
                   (let result = calculate_route env G (origin request) (destination request)
                                   (mode request)
                    in if \<not> success result then
                         (case haversine_distance (origin request) (destination request) of
                            Inl e \<Rightarrow> (Inl e, s')
                          | Inr direct_km \<Rightarrow>
                              (Inr (fallback_response direct_km (mode request)
                                      ''Used fallback calculation''), s'))
                       else (Inr result, s'))))"

definition calculate_single_route ::
  "'g osmnx \<Rightarrow> 'g caches \<Rightarrow> RouteRequest \<Rightarrow> (exn + RouteResponse) \<times> 'g caches" where
  "calculate_single_route env s request =
     (case single_route_try env s request of
        (Inr r, s') \<Rightarrow> (Inr r, s')
      | (Inl e, s') \<Rightarrow>
          (case haversine_distance (origin request) (destination request) of
             Inl e' \<Rightarrow> (Inl e', s')
           | Inr direct_km \<Rightarrow>
               (Inr (fallback_response direct_km (mode request)
                       (''Used fallback: '' @ str_exn e)), s')))"

text \<open>
  The single-route endpoint once more, with the distance function it calls at its three
  sites as the parameter \<open>hav\<close>, so that it can be run on the rounded distance.
  With \<open>haversine_distance\<close> for \<open>hav\<close> it is \<open>calculate_single_route\<close>.
\<close>

definition single_route_try_with ::
  "(Coordinates \<Rightarrow> Coordinates \<Rightarrow> exn + real) \<Rightarrow> 'g osmnx \<Rightarrow> 'g caches \<Rightarrow> RouteRequest \<Rightarrow>
     (exn + RouteResponse) \<times> 'g caches" where
  "single_route_try_with hav env s request =
     (let mid_lat = (lat (origin request) + lat (destination request)) / 2;
          mid_lng = (lng (origin request) + lng (destination request)) / 2
      in case hav (origin request) (destination request) of
           Inl e \<Rightarrow> (Inl e, s)
         | Inr direct_distance \<Rightarrow>
            (let graph_radius = graph_radius_of direct_distance
             in case get_or_download_graph env s mid_lat mid_lng (mode request) graph_radius of
                  (Inl e, s') \<Rightarrow> (Inl e, s')
                | (Inr G, s') \<Rightarrow>
                   (let result = calculate_route env G (origin request) (destination request)
                                   (mode request)
                    in if \<not> success result then
                         (case hav (origin request) (destination request) of
                            Inl e \<Rightarrow> (Inl e, s')
                          | Inr direct_km \<Rightarrow>
                              (Inr (fallback_response direct_km (mode request)
                                      ''Used fallback calculation''), s'))
                       else (Inr result, s'))))"

definition calculate_single_route_with ::
  "(Coordinates \<Rightarrow> Coordinates \<Rightarrow> exn + real) \<Rightarrow> 'g osmnx \<Rightarrow> 'g caches \<Rightarrow> RouteRequest \<Rightarrow>
     (exn + RouteResponse) \<times> 'g caches" where
  "calculate_single_route_with hav env s request =
     (case single_route_try_with hav env s request of
        (Inr r, s') \<Rightarrow> (Inr r, s')
      | (Inl e, s') \<Rightarrow>
          (case hav (origin request) (destination request) of
             Inl e' \<Rightarrow> (Inl e', s')
           | Inr direct_km \<Rightarrow>
               (Inr (fallback_response direct_km (mode request)
                       (''Used fallback: '' @ str_exn e)), s')))"



section \<open>Specification-side and auxiliary definitions\<close>

text \<open>
  The quantity \<open>a\<close> of the haversine formula, as the specification writes it:
  the square of sin(dlat/2), plus cos(lat1) times cos(lat2) times the square of
  sin(dlng/2), on radians.
\<close>

definition hav_a :: "real \<Rightarrow> real \<Rightarrow> real \<Rightarrow> real \<Rightarrow> real" where
  "hav_a lat1 lng1 lat2 lng2 =
     (sin ((lat2 - lat1) / 2))\<^sup>2 + cos lat1 * cos lat2 * (sin ((lng2 - lng1) / 2))\<^sup>2"


text \<open>Concrete requests used to instantiate the theorems.\<close>

definition equator_origin :: Coordinates where
  "equator_origin = \<lparr>lat = 0, lng = 0\<rparr>"

definition equator_tenth :: Coordinates where
  "equator_tenth = \<lparr>lat = 0, lng = 1 / 10\<rparr>"

definition car_request :: RouteRequest where
  "car_request = \<lparr>origin = equator_origin, destination = equator_tenth, mode = ''car''\<rparr>"


text \<open>
  A provider whose travel-time search raises \<open>NetworkXNoPath\<close> while its length search
  finds the two-node path, one whose travel-time search returns \<open>None\<close> instead, and one
  whose download fails.
\<close>

definition demo_env :: "nat osmnx" where
  "demo_env =
     \<lparr>graph_from_point = (\<lambda>p r t. Inr 7),
      add_edge_speeds = Inr,
      add_edge_travel_times = Inr,
      nearest_nodes = (\<lambda>G x y. Inr (if x = 0 then 1 else 2)),
      shortest_path = (\<lambda>G a b w. if w = ''travel_time'' then Inl (NetworkXNoPath ''no path'')
                                   else Inr (Some [a, b])),
      route_to_gdf_sum = (\<lambda>G r a. if a = ''length'' then Inr 11000 else Inr 900),
      node_attr = (\<lambda>G n a. Inr (if a = ''x'' then real_of_int n / 10 else 0)),
      float_str = (\<lambda>x. str_int \<lfloor>x * 100\<rfloor>)\<rparr>"

definition none_env :: "nat osmnx" where
  "none_env =
     demo_env\<lparr>shortest_path := (\<lambda>G a b w. if w = ''travel_time'' then Inr None
                                           else Inr (Some [a, b]))\<rparr>"

definition failing_env :: "nat osmnx" where
  "failing_env = demo_env\<lparr>graph_from_point := (\<lambda>p r t. Inl (Exception ''download failed''))\<rparr>"

definition empty_caches :: "nat caches" where
  "empty_caches = \<lparr>graph_cache = Map.empty, disk_cache = Map.empty\<rparr>"

text \<open>
  The in-range request from (8, 0) to its antipode (-8, 180). The exact haversine argument
  is 1 there; the doubles compute 1.0000000000000002, that is 1 plus 2 to the power -52.
  \<open>observed_rounding\<close> is that error at that request and no error elsewhere.
\<close>

definition antipodal_request :: RouteRequest where
  "antipodal_request =
     \<lparr>origin = \<lparr>lat = 8, lng = 0\<rparr>, destination = \<lparr>lat = - 8, lng = 180\<rparr>, mode = ''drive''\<rparr>"

definition observed_rounding :: "Coordinates \<Rightarrow> Coordinates \<Rightarrow> real" where
  "observed_rounding p q =
     (if p = \<lparr>lat = 8, lng = 0\<rparr> \<and> q = \<lparr>lat = - 8, lng = 180\<rparr> then 1 / 2 ^ 52 else 0)"

text \<open>
  The caches after \<open>demo_env\<close> has served the midpoint (-0.001, 0) with radius 5000,
  and after it has served \<open>demo_request\<close>; the response to \<open>demo_request\<close> and to
  the batch made of it.
\<close>

definition west_cached :: "nat caches" where
  "west_cached =
     \<lparr>graph_cache = [get_graph_key demo_env (- 1 / 1000) 0 ''drive'' 5000 \<mapsto> 7],
      disk_cache = [get_graph_key demo_env (- 1 / 1000) 0 ''drive'' 5000 \<mapsto> 7]\<rparr>"




text \<open>
  Every entry of the in-memory tier is also in the persistent tier. It holds for empty
  caches and every call of \<open>get_or_download_graph\<close> keeps it.
\<close>

definition tiers_consistent :: "'g caches \<Rightarrow> bool" where
  "tiers_consistent s \<longleftrightarrow> graph_cache s \<subseteq>\<^sub>m disk_cache s"

text \<open>
  The contract of the provider that the result bounds rest on: the sums over the edges of
  a route (lengths in metres, travel times in seconds) are not negative.
\<close>

definition nonneg_sums :: "'g osmnx \<Rightarrow> bool" where
  "nonneg_sums env \<longleftrightarrow> (\<forall>G route a x. route_to_gdf_sum env G route a = Inr x \<longrightarrow> 0 \<le> x)"



section \<open>Bounds on \<open>pi\<close>\<close>




section \<open>The haversine distance never raises\<close>

lemma cos_product_half_angles:
  fixes u w :: real
  shows "cos (w - u) * cos (w + u) = 1 - (sin u)\<^sup>2 - (sin w)\<^sup>2"
proof -
  have "cos (w - u) * cos (w + u) = (cos w)\<^sup>2 * (cos u)\<^sup>2 - (sin w)\<^sup>2 * (sin u)\<^sup>2"
    by (simp add: cos_add cos_diff algebra_simps power2_eq_square)
  also have "\<dots> = (1 - (sin w)\<^sup>2) * (1 - (sin u)\<^sup>2) - (sin w)\<^sup>2 * (sin u)\<^sup>2"
    by (simp add: cos_squared_eq)
  also have "\<dots> = 1 - (sin u)\<^sup>2 - (sin w)\<^sup>2"
    by (simp add: algebra_simps)
  finally show ?thesis .
qed

lemma hav_a_convex:
  "hav_a lat1 lng1 lat2 lng2 =
     (sin ((lat2 - lat1) / 2))\<^sup>2 * (1 - (sin ((lng2 - lng1) / 2))\<^sup>2)
     + (cos ((lat1 + lat2) / 2))\<^sup>2 * (sin ((lng2 - lng1) / 2))\<^sup>2"
proof -
  let ?u = "(lat2 - lat1) / 2" and ?w = "(lat1 + lat2) / 2"
  have l1: "lat1 = ?w - ?u" and l2: "lat2 = ?w + ?u"
    by (simp_all add: field_simps)
  have "cos lat1 * cos lat2 = cos (?w - ?u) * cos (?w + ?u)"
    using l1 l2 by simp
  also have "\<dots> = 1 - (sin ?u)\<^sup>2 - (sin ?w)\<^sup>2"
    by (rule cos_product_half_angles)
  finally have "cos lat1 * cos lat2 = (cos ?w)\<^sup>2 - (sin ?u)\<^sup>2"
    by (simp add: cos_squared_eq)
  then have "hav_a lat1 lng1 lat2 lng2 =
      (sin ?u)\<^sup>2 + ((cos ?w)\<^sup>2 - (sin ?u)\<^sup>2) * (sin ((lng2 - lng1) / 2))\<^sup>2"
    by (simp only: hav_a_def)
  also have "\<dots> = (sin ?u)\<^sup>2 * (1 - (sin ((lng2 - lng1) / 2))\<^sup>2)
      + (cos ?w)\<^sup>2 * (sin ((lng2 - lng1) / 2))\<^sup>2"
    by (simp add: algebra_simps)
  finally show ?thesis .
qed

lemma hav_a_range: "0 \<le> hav_a lat1 lng1 lat2 lng2 \<and> hav_a lat1 lng1 lat2 lng2 \<le> 1"
proof -
  let ?p = "(sin ((lat2 - lat1) / 2))\<^sup>2" and ?q = "(cos ((lat1 + lat2) / 2))\<^sup>2"
  let ?s = "(sin ((lng2 - lng1) / 2))\<^sup>2"
  have s: "0 \<le> ?s" "?s \<le> 1" and p: "0 \<le> ?p" "?p \<le> 1" and q: "0 \<le> ?q" "?q \<le> 1"
    by (simp_all add: abs_square_le_1)
  have lo: "0 \<le> ?p * (1 - ?s) + ?q * ?s"
    using s p q by (intro add_nonneg_nonneg mult_nonneg_nonneg) simp_all
  have "?p * (1 - ?s) \<le> 1 * (1 - ?s)" "?q * ?s \<le> 1 * ?s"
    using s p q by (intro mult_right_mono; simp)+
  then have hi: "?p * (1 - ?s) + ?q * ?s \<le> 1"
    by simp
  show ?thesis
    using lo hi by (simp only: hav_a_convex)
qed

lemma atan2_nonneg: "0 \<le> y \<Longrightarrow> 0 \<le> x \<Longrightarrow> 0 \<le> atan2 y x"
  by (simp add: atan2_def)

lemma haversine_distance_eq:
  "haversine_distance p q =
     Inr (6371 * (2 * atan2
        (sqrt (hav_a (radians (lat p)) (radians (lng p)) (radians (lat q)) (radians (lng q))))
        (sqrt (1 - hav_a (radians (lat p)) (radians (lng p)) (radians (lat q)) (radians (lng q))))))"
  using hav_a_range [of "radians (lat p)" "radians (lng p)" "radians (lat q)" "radians (lng q)"]
  by (simp add: haversine_distance_def py_sqrt_def Let_def hav_a_def)

lemma haversine_distance_total: "\<exists>d. haversine_distance p q = Inr d \<and> 0 \<le> d"
  using hav_a_range [of "radians (lat p)" "radians (lng p)" "radians (lat q)" "radians (lng q)"]
  by (simp add: haversine_distance_eq atan2_nonneg)



section \<open>Rounding and truncation\<close>







section \<open>The geometric fallback (C5)\<close>


section \<open>The search radius (C4)\<close>



section \<open>Unknown travel modes (C7)\<close>

text \<open>
  C7, as stated, fails: the request model declares the mode as one of the three
  literals, so a route request with mode "car" is rejected at validation.
\<close>

theorem unknown_mode_request_rejected:
  "validate_RouteRequest car_request = Inl (ValidationError ''mode'')"
  by (simp add: validate_RouteRequest_def car_request_def valid_mode_def valid_Coordinates_def
      equator_origin_def equator_tenth_def)

text \<open>
  C7, amended. For any mode string not in {drive, walk, bike}, the helper functions
  give network type "drive" and 40 km/h without raising, while the validation of a
  route request with in-range coordinates and that mode rejects it.
\<close>

theorem unknown_mode_defaults_to_drive:
  assumes "\<not> valid_mode m"
  shows "get_network_type m = ''drive'' \<and> get_speed_kmh m = 40
         \<and> (valid_Coordinates a \<and> valid_Coordinates b \<longrightarrow>
              validate_RouteRequest \<lparr>origin = a, destination = b, mode = m\<rparr>
                = Inl (ValidationError ''mode''))"
  using assms
  by (simp add: valid_mode_def get_network_type_def get_speed_kmh_def validate_RouteRequest_def)

theorem unknown_mode_defaults_to_drive_witness:
  "\<not> valid_mode ''car'' \<and> valid_Coordinates equator_origin \<and> valid_Coordinates equator_tenth
   \<and> get_network_type ''car'' = ''drive'' \<and> get_speed_kmh ''car'' = 40
   \<and> validate_RouteRequest \<lparr>origin = equator_origin, destination = equator_tenth, mode = ''car''\<rparr>
       = Inl (ValidationError ''mode'')"
proof -
  have h: "\<not> valid_mode ''car''"
    by (simp add: valid_mode_def)
  have c: "valid_Coordinates equator_origin \<and> valid_Coordinates equator_tenth"
    by (simp add: valid_Coordinates_def equator_origin_def equator_tenth_def)
  show ?thesis
    using h c unknown_mode_defaults_to_drive [OF h, of equator_origin equator_tenth] by simp
qed

section \<open>The graph cache (C8, C3)\<close>

lemma get_or_download_failure_keeps_caches:
  "get_or_download_graph env s la lo m r = (Inl e, s') \<Longrightarrow> s' = s"
  by (auto simp: get_or_download_graph_def Let_def split: option.splits sum.splits)

lemma get_or_download_success_cached:
  assumes "get_or_download_graph env s la lo m r = (Inr G, s')" and "tiers_consistent s"
  shows "graph_cache s' (get_graph_key env la lo m r) = Some G
         \<and> disk_cache s' (get_graph_key env la lo m r) = Some G
         \<and> tiers_consistent s'"
  using assms
  by (auto simp: get_or_download_graph_def Let_def tiers_consistent_def map_le_def dom_def
      split: option.splits sum.splits if_splits)

lemma get_or_download_hit:
  assumes "disk_cache s k = Some G" and "graph_cache s k = None \<or> graph_cache s k = Some G"
    and "k = get_graph_key env la lo m r"
  shows "\<exists>s'. get_or_download_graph env s la lo m r = (Inr G, s') \<and> disk_cache s' = disk_cache s"
  using assms by (auto simp: get_or_download_graph_def Let_def)

lemma same_cell_same_key:
  assumes "py_round la1 2 = py_round la2 2" and "py_round lo1 2 = py_round lo2 2"
    and "(la1 < 0) = (la2 < 0)" and "(lo1 < 0) = (lo2 < 0)"
  shows "get_graph_key env la1 lo1 m r = get_graph_key env la2 lo2 m r"
  using assms by (simp add: get_graph_key_def py_round_signed_def)

lemma opposite_sign_keys_differ:
  assumes "la1 < 0" and "\<not> la2 < 0" and "py_round la1 2 = py_round la2 2"
  shows "get_graph_key env la1 lo m r \<noteq> get_graph_key env la2 lo m r"
proof
  assume "get_graph_key env la1 lo m r = get_graph_key env la2 lo m r"
  then have "length (get_graph_key env la1 lo m r) = length (get_graph_key env la2 lo m r)"
    by simp
  then show False
    using assms by (simp add: get_graph_key_def py_round_signed_def format_float_def Let_def)
qed

lemma key_env: "float_str env2 = float_str env \<Longrightarrow> get_graph_key env2 la lo m r = get_graph_key env la lo m r"
  by (simp add: get_graph_key_def format_float_def)

lemma tiers_consistent_empty: "tiers_consistent \<lparr>graph_cache = Map.empty, disk_cache = d\<rparr>"
  by (simp add: tiers_consistent_def)

lemma get_or_download_keeps_consistency:
  assumes "tiers_consistent s" and "get_or_download_graph env s la lo m r = (x, s')"
  shows "tiers_consistent s'"
proof (cases x)
  case (Inl e)
  then have "get_or_download_graph env s la lo m r = (Inl e, s')"
    using assms(2) by simp
  then have "s' = s"
    by (rule get_or_download_failure_keeps_caches)
  then show ?thesis
    using assms(1) by simp
next
  case (Inr G)
  then have "get_or_download_graph env s la lo m r = (Inr G, s')"
    using assms(2) by simp
  then show ?thesis
    using get_or_download_success_cached [OF _ assms(1)] by blast
qed

text \<open>
  C8. When the provider invocation inside \<open>get_or_download_graph\<close> fails on a miss
  of both tiers (the download raises, or one of the two annotation calls on the
  downloaded graph raises), the exception is the result and both cache tiers are
  exactly what they were: no key is added.
\<close>

theorem provider_failure_leaves_caches:
  assumes miss: "graph_cache s (get_graph_key env la lo m r) = None"
      "disk_cache s (get_graph_key env la lo m r) = None"
    and fails: "graph_from_point env (la, lo) r (get_network_type m) = Inl e
      \<or> (\<exists>G0. graph_from_point env (la, lo) r (get_network_type m) = Inr G0
            \<and> (add_edge_speeds env G0 = Inl e
               \<or> (\<exists>G1. add_edge_speeds env G0 = Inr G1 \<and> add_edge_travel_times env G1 = Inl e)))"
  shows "get_or_download_graph env s la lo m r = (Inl e, s)"
  using assms by (auto simp: get_or_download_graph_def Let_def)

theorem provider_failure_leaves_caches_witness:
  "graph_cache empty_caches (get_graph_key failing_env 0 (1 / 20) ''drive'' 16679) = None
   \<and> disk_cache empty_caches (get_graph_key failing_env 0 (1 / 20) ''drive'' 16679) = None
   \<and> graph_from_point failing_env (0, 1 / 20) 16679 (get_network_type ''drive'')
       = Inl (Exception ''download failed'')
   \<and> get_or_download_graph failing_env empty_caches 0 (1 / 20) ''drive'' 16679
       = (Inl (Exception ''download failed''), empty_caches)"
proof -
  have miss: "graph_cache empty_caches (get_graph_key failing_env 0 (1 / 20) ''drive'' 16679) = None"
    "disk_cache empty_caches (get_graph_key failing_env 0 (1 / 20) ''drive'' 16679) = None"
    by (simp_all add: empty_caches_def)
  have fails: "graph_from_point failing_env (0, 1 / 20) 16679 (get_network_type ''drive'')
      = Inl (Exception ''download failed'')"
    by (simp add: failing_env_def)
  show ?thesis
    using miss fails provider_failure_leaves_caches [OF miss, of "Exception ''download failed''"] by simp
qed

text \<open>
  What the cache does when the key is the same: a call that returned G from consistent
  caches is followed by calls for the same key that return G again with any provider,
  as long as the two tiers have not changed the key's entry other than by losing the
  in-memory one.
\<close>

lemma cached_graph_is_reused:
  assumes key: "get_graph_key env2 la2 lo2 m r = get_graph_key env la1 lo1 m r"
    and inv: "tiers_consistent s"
    and first: "get_or_download_graph env s la1 lo1 m r = (Inr G, s1)"
    and disk: "disk_cache s2 (get_graph_key env la1 lo1 m r)
                 = disk_cache s1 (get_graph_key env la1 lo1 m r)"
    and mem: "graph_cache s2 (get_graph_key env la1 lo1 m r) = None
              \<or> graph_cache s2 (get_graph_key env la1 lo1 m r)
                   = graph_cache s1 (get_graph_key env la1 lo1 m r)"
  shows "\<exists>s3. get_or_download_graph env2 s2 la2 lo2 m r = (Inr G, s3)
               \<and> disk_cache s3 = disk_cache s2"
proof -
  let ?k = "get_graph_key env la1 lo1 m r"
  have cached: "graph_cache s1 ?k = Some G" "disk_cache s1 ?k = Some G"
    using get_or_download_success_cached [OF first inv] by simp_all
  have d: "disk_cache s2 ?k = Some G"
    using cached disk by simp
  have g: "graph_cache s2 ?k = None \<or> graph_cache s2 ?k = Some G"
    using cached mem by simp
  show ?thesis
    using get_or_download_hit [OF d g key [symmetric]] .
qed

text \<open>
  C3. The claim is what the key builder is written for ("round coordinates to create
  larger cache regions"), and the code misses it at the signed zero. The midpoints
  (-0.001, 0) and (0.001, 0) round to the same 2-decimal values, 0.00 and 0.00, and share
  mode and radius; the rounded latitudes print as "-0.0" and "0.0", so the keys differ.
  After the first midpoint has been served and cached, the call for the second one
  misses both tiers and goes to the provider again: with a provider that now fails, it
  fails.
\<close>

theorem signed_zero_splits_the_cell:
  "py_round (- 1 / 1000) 2 = py_round (1 / 1000) 2
   \<and> get_graph_key demo_env (- 1 / 1000) 0 ''drive'' 5000
       \<noteq> get_graph_key demo_env (1 / 1000) 0 ''drive'' 5000
   \<and> get_or_download_graph demo_env empty_caches (- 1 / 1000) 0 ''drive'' 5000
       = (Inr 7, west_cached)
   \<and> get_or_download_graph failing_env west_cached (1 / 1000) 0 ''drive'' 5000
       = (Inl (Exception ''download failed''), west_cached)"
proof -
  have cell: "py_round (- 1 / 1000) 2 = py_round (1 / 1000) 2"
    by (simp add: py_round_def)
  have keys: "get_graph_key demo_env (- 1 / 1000) 0 ''drive'' 5000
      \<noteq> get_graph_key demo_env (1 / 1000) 0 ''drive'' 5000"
    using cell by (intro opposite_sign_keys_differ) simp_all
  have first: "get_or_download_graph demo_env empty_caches (- 1 / 1000) 0 ''drive'' 5000
      = (Inr 7, west_cached)"
    by (simp add: get_or_download_graph_def Let_def empty_caches_def demo_env_def
        west_cached_def)
  have same: "get_graph_key failing_env (1 / 1000) 0 ''drive'' 5000
      = get_graph_key demo_env (1 / 1000) 0 ''drive'' 5000"
    by (rule key_env) (simp add: failing_env_def)
  have miss: "graph_cache west_cached (get_graph_key failing_env (1 / 1000) 0 ''drive'' 5000) = None"
    "disk_cache west_cached (get_graph_key failing_env (1 / 1000) 0 ''drive'' 5000) = None"
    using keys by (simp_all add: same west_cached_def)
  have fails: "graph_from_point failing_env (1 / 1000, 0) 5000 (get_network_type ''drive'')
      = Inl (Exception ''download failed'')"
    by (simp add: failing_env_def)
  have second: "get_or_download_graph failing_env west_cached (1 / 1000) 0 ''drive'' 5000
      = (Inl (Exception ''download failed''), west_cached)"
    using miss fails by (simp add: get_or_download_graph_def Let_def)
  show ?thesis
    using cell keys first second by simp
qed

section \<open>Route calculation (C2)\<close>

lemma py_round_nonneg:
  assumes "0 \<le> x"
  shows "0 \<le> py_round x n"
proof -
  have "0 \<le> x * 10 ^ n"
    using assms by simp
  then have "0 \<le> \<lfloor>x * 10 ^ n\<rfloor>"
    by simp
  then show ?thesis
    by (simp add: py_round_def Let_def)
qed

lemma get_speed_kmh_pos: "0 < get_speed_kmh m"
  by (simp add: get_speed_kmh_def)

lemma fallback_response_fields:
  "success (fallback_response d m msg) \<and> error (fallback_response d m msg) = Some msg
   \<and> mode_res (fallback_response d m msg) = m
   \<and> path_coordinates (fallback_response d m msg) = None"
  by (simp add: fallback_response_def Let_def)

lemma fallback_response_nonneg:
  assumes "0 \<le> d"
  shows "0 \<le> distance_km (fallback_response d m msg)
         \<and> 0 \<le> duration_minutes (fallback_response d m msg)"
proof -
  have "0 \<le> d * 1.4"
    using assms by simp
  moreover have "0 \<le> d * 1.4 / get_speed_kmh m * 60"
    using assms get_speed_kmh_pos [of m] by simp
  ultimately show ?thesis
    by (simp add: fallback_response_def Let_def py_round_nonneg)
qed

lemma calculate_route_success:
  assumes "success (calculate_route env G orig dest m)"
  shows "error (calculate_route env G orig dest m) = None
         \<and> mode_res (calculate_route env G orig dest m) = m"
  using assms
  by (auto simp: calculate_route_def calculate_route_body_def Let_def
      split: sum.splits option.splits exn.splits)


lemma calculate_route_nonneg:
  assumes "nonneg_sums env"
  shows "0 \<le> distance_km (calculate_route env G orig dest m)
         \<and> 0 \<le> duration_minutes (calculate_route env G orig dest m)"
proof -
  have sums: "\<And>route a x. route_to_gdf_sum env G route a = Inr x \<Longrightarrow> 0 \<le> x"
    using assms by (auto simp: nonneg_sums_def)
  have speed: "0 \<le> get_speed_kmh m"
    using get_speed_kmh_pos [of m] by simp
  show ?thesis
    by (auto simp: calculate_route_def calculate_route_body_def Let_def speed
        intro!: py_round_nonneg divide_nonneg_nonneg mult_nonneg_nonneg dest!: sums
        split: sum.splits option.splits exn.splits)
qed

text \<open>
  The retry as the code performs it, in the handler of \<open>NetworkXNoPath\<close>: when the
  travel-time search raises it and the length search returns a path whose sums and node
  coordinates are available, the result is successful and carries that path.
\<close>

lemma no_path_exception_is_retried:
  assumes "nearest_nodes env G (lng orig) (lat orig) = Inr a"
    and "nearest_nodes env G (lng dest) (lat dest) = Inr b"
    and "shortest_path env G a b ''travel_time'' = Inl (NetworkXNoPath msg)"
    and "shortest_path env G a b ''length'' = Inr (Some route)"
    and "route_to_gdf_sum env G route ''length'' = Inr len"
    and "route_to_gdf_sum env G route ''travel_time'' = Inr secs
         \<or> route_to_gdf_sum env G route ''travel_time'' = Inl (KeyError k)"
    and "route_coords env G route = Inr coords"
  shows "success (calculate_route env G orig dest m)
         \<and> path_coordinates (calculate_route env G orig dest m) = Some coords
         \<and> error (calculate_route env G orig dest m) = None"
  using assms
  by (auto simp: calculate_route_def calculate_route_body_def Let_def)

text \<open>
  C2. The claim is what the code attempts ("fallback to length-based routing") and the
  code misses it when the travel-time search reports "no path" by returning \<open>None\<close>
  instead of raising: on the graph of \<open>none_env\<close>, where the travel-time search
  returns \<open>None\<close> and the length search returns the path [1, 2], the length search is
  never made and the result is the failure "No path found between points".
\<close>

theorem none_result_is_not_retried:
  "shortest_path none_env 7 1 2 ''travel_time'' = Inr None
   \<and> shortest_path none_env 7 1 2 ''length'' = Inr (Some [1, 2])
   \<and> calculate_route none_env 7 equator_origin equator_tenth ''drive'' =
       \<lparr>distance_km = 0, duration_minutes = 0, mode_res = ''drive'', path_coordinates = None,
        success = False, error = Some ''No path found between points''\<rparr>"
  by (simp add: none_env_def demo_env_def calculate_route_def calculate_route_body_def
      equator_origin_def equator_tenth_def)

section \<open>The single-route endpoint (C10, C1)\<close>

lemma calculate_single_route_unfold:
  assumes d: "haversine_distance (origin request) (destination request) = Inr d"
  shows "calculate_single_route env s request =
     (case get_or_download_graph env s
             ((lat (origin request) + lat (destination request)) / 2)
             ((lng (origin request) + lng (destination request)) / 2)
             (mode request) (graph_radius_of d) of
        (Inl e, s') \<Rightarrow>
          (Inr (fallback_response d (mode request) (''Used fallback: '' @ str_exn e)), s')
      | (Inr G, s') \<Rightarrow>
          (if success (calculate_route env G (origin request) (destination request) (mode request))
           then (Inr (calculate_route env G (origin request) (destination request)
                        (mode request)), s')
           else (Inr (fallback_response d (mode request) ''Used fallback calculation''), s')))"
  by (simp add: calculate_single_route_def single_route_try_def d Let_def
      split: prod.splits sum.splits)


lemma calculate_single_route_keeps_consistency:
  assumes "tiers_consistent s" and "calculate_single_route env s request = (x, s')"
  shows "tiers_consistent s'"
proof -
  obtain d where d: "haversine_distance (origin request) (destination request) = Inr d"
    using haversine_distance_total by blast
  show ?thesis
    using assms(2) get_or_download_keeps_consistency [OF assms(1)]
    unfolding calculate_single_route_unfold [OF d]
    by (auto split: prod.splits sum.splits if_splits)
qed

lemma prefix1: "prefix ''Used fallback'' ''Used fallback calculation''"
  by (simp add: prefix_def)

lemma prefix2: "prefix ''Used fallback'' (''Used fallback: '' @ msg)"
  by (simp add: prefix_def)


text \<open>
  With exact arithmetic the endpoint would do what C1 says: it returns for every request,
  successfully, and with a distance and a duration that are not negative when the edge
  sums of the provider are not.
\<close>

lemma single_route_succeeds_in_exact_arithmetic:
  assumes "valid_Coordinates (origin request)" and "valid_Coordinates (destination request)"
  shows "\<exists>r s'. calculate_single_route env s request = (Inr r, s')
     \<and> success r
     \<and> (error r = None \<or> (\<exists>msg. error r = Some msg \<and> prefix ''Used fallback'' msg))
     \<and> (nonneg_sums env \<longrightarrow> 0 \<le> distance_km r \<and> 0 \<le> duration_minutes r)"
proof -
  obtain d where d: "haversine_distance (origin request) (destination request) = Inr d"
    and d0: "0 \<le> d"
    using haversine_distance_total by blast
  show ?thesis
    unfolding calculate_single_route_unfold [OF d]
    by (auto simp: fallback_response_fields fallback_response_nonneg [OF d0] prefix1 prefix2
        calculate_route_success calculate_route_nonneg
        split: prod.splits sum.splits)
qed

text \<open>
  The rounded distance is the exact one when the error is zero, and the endpoint over
  the exact distance is \<open>calculate_single_route\<close>.
\<close>

lemma haversine_distance_rounded_exact:
  "haversine_distance_rounded (\<lambda>p q. 0) = haversine_distance"
  by (intro ext) (simp add: haversine_distance_rounded_def haversine_distance_def)

lemma calculate_single_route_with_exact:
  "calculate_single_route_with haversine_distance = calculate_single_route"
  by (intro ext)
    (simp add: calculate_single_route_with_def single_route_try_with_def
      calculate_single_route_def single_route_try_def)

text \<open>
  The handler of the endpoint computes the distance with the function that has just
  raised: an exception of the distance function reaches the caller.
\<close>

lemma distance_error_propagates:
  assumes "hav (origin request) (destination request) = Inl e"
  shows "calculate_single_route_with hav env s request = (Inl e, s)"
  using assms by (simp add: calculate_single_route_with_def single_route_try_with_def)

text \<open>
  Between a point and its antipode the exact haversine argument is 1, the boundary of
  the domain of \<open>sqrt(1 - a)\<close>: any rounding upwards raises.
\<close>

lemma antipodal_hav_a:
  "hav_a (radians la) (radians lo) (radians (- la)) (radians (lo + 180)) = 1"
proof -
  have e1: "(radians (lo + 180) - radians lo) / 2 = pi / 2"
    by (simp add: radians_def field_simps)
  have e2: "(radians (- la) - radians la) / 2 = - radians la"
    by (simp add: radians_def)
  have e3: "cos (radians (- la)) = cos (radians la)"
    by (simp add: radians_def)
  have "(sin (radians la))\<^sup>2 + (cos (radians la))\<^sup>2 = 1"
    by simp
  then have "(sin (- radians la))\<^sup>2 + cos (radians la) * cos (radians la) * (sin (pi / 2))\<^sup>2 = 1"
    by (simp add: power2_eq_square)
  then show ?thesis
    unfolding hav_a_def e1 e2 e3 .
qed

lemma rounded_up_antipode_raises:
  assumes "lat q = - lat p" and "lng q = lng p + 180" and "0 < err p q"
  shows "haversine_distance_rounded err p q = Inl (ValueError ''math domain error'')"
proof -
  have "hav_a (radians (lat p)) (radians (lng p)) (radians (lat q)) (radians (lng q)) = 1"
    using assms(1,2) antipodal_hav_a [of "lat p" "lng p"] by simp
  then show ?thesis
    using assms(3) by (simp add: haversine_distance_rounded_def hav_a_def py_sqrt_def Let_def)
qed

text \<open>
  C1. The claim is what the endpoint is written for ("falls back to Haversine distance
  if routing fails"), and the code misses it for an in-range request between a point and
  its antipode. For (8, 0) to (-8, 180) the exact haversine argument is 1 and the doubles
  compute 1.0000000000000002: the distance function raises "math domain error" inside the
  \<open>try\<close> and again inside the handler, and the endpoint raises it to the caller
  instead of returning a response.
\<close>

theorem antipodal_request_raises:
  "valid_Coordinates (origin antipodal_request)
   \<and> valid_Coordinates (destination antipodal_request)
   \<and> hav_a (radians 8) (radians 0) (radians (- 8)) (radians 180) = 1
   \<and> haversine_distance_rounded observed_rounding (origin antipodal_request)
         (destination antipodal_request) = Inl (ValueError ''math domain error'')
   \<and> calculate_single_route_with (haversine_distance_rounded observed_rounding)
         demo_env empty_caches antipodal_request
       = (Inl (ValueError ''math domain error''), empty_caches)"
proof -
  have v: "valid_Coordinates (origin antipodal_request)"
    "valid_Coordinates (destination antipodal_request)"
    by (simp_all add: valid_Coordinates_def antipodal_request_def)
  have a: "hav_a (radians 8) (radians 0) (radians (- 8)) (radians 180) = 1"
    using antipodal_hav_a [of 8 0] by simp
  have r: "haversine_distance_rounded observed_rounding (origin antipodal_request)
      (destination antipodal_request) = Inl (ValueError ''math domain error'')"
    by (rule rounded_up_antipode_raises)
      (simp_all add: antipodal_request_def observed_rounding_def)
  show ?thesis
    using v a r
      distance_error_propagates [where hav = "haversine_distance_rounded observed_rounding"
        and request = antipodal_request and env = demo_env and s = empty_caches, OF r]
    by simp
qed

section \<open>The batch endpoint (C6)\<close>






end
